theory Spec2Isabelle
  imports Main "HOL-Library.Word"
begin

section \<open>Values, errors and outcomes\<close>

text \<open>
  The module \<^verbatim>\<open>gpipe.py\<close> is Python 2: a \<^verbatim>\<open>str\<close> is a sequence of bytes and an
  \<^verbatim>\<open>int\<close> is unbounded. Bytes are 8-bit words, Python integers are \<^typ>\<open>int\<close>.
\<close>

type_synonym byte = "8 word"

text \<open>
  The exceptions the module raises or lets through. \<^verbatim>\<open>GPipeError\<close>, \<^verbatim>\<open>EOFError\<close> and
  \<^verbatim>\<open>IOError\<close> carry the message of the \<^verbatim>\<open>raise\<close> statement. \<open>StructError\<close> is
  \<^verbatim>\<open>struct.error\<close>; \<open>OSError\<close> and \<open>TypeError\<close> come from \<^verbatim>\<open>os.read\<close>, \<^verbatim>\<open>os.write\<close>
  and \<^verbatim>\<open>os.close\<close>; \<open>AttributeError\<close> is a method looked up on the wrong class;
  \<open>PickleError\<close> is whatever \<^verbatim>\<open>pickle.loads\<close> raises.
\<close>

datatype error =
    GPipeError string
  | EOFError string
  | IOError string
  | StructError
  | OSError
  | TypeError
  | AttributeError
  | PickleError

text \<open>
  A call either returns a value, raises, or suspends: gevent is cooperative, and a
  greenlet that has to wait for the lock of a handle (\<^verbatim>\<open>with self._lock\<close>) or for data
  (\<^verbatim>\<open>gevent.os.nb_read\<close> on an empty pipe whose write end is still open) gives control
  to the hub. \<open>Suspends\<close> is the outcome of a call at the point where it waits; the state
  returned with it is the state the other greenlets of the process then see.
\<close>

datatype 'a outcome = Returns 'a | Raises error | Suspends

text \<open>The three messages of \<^verbatim>\<open>GPipeError\<close>, under the names the specification gives them.\<close>

definition HandleClosedError :: error where
  "HandleClosedError = GPipeError ''GPipeHandle has been closed before.''"

definition CrossProcessUseError :: error where
  "CrossProcessUseError = GPipeError ''GPipeHandle not registered for current process.''"

definition HandleLockedError :: error where
  "HandleLockedError = GPipeError ''Can't close: handle locked for I/O operation.''"

text \<open>
  \<^verbatim>\<open>_recv_in_buffer\<close> raises \<^verbatim>\<open>IOError("Message interrupted by EOF.")\<close> where the
  specification speaks of a truncated message.
\<close>

definition TruncatedMessageError :: error where
  "TruncatedMessageError = IOError ''Message interrupted by EOF.''"

definition PipeEOFError :: error where
  "PipeEOFError = EOFError ''Most likely, the other pipe end is closed.''"

section \<open>\<^verbatim>\<open>struct.pack("!i", n)\<close> and \<^verbatim>\<open>struct.unpack("!i", s)\<close>\<close>

text \<open>
  Format \<^verbatim>\<open>!i\<close>: network byte order, C \<^verbatim>\<open>int\<close>, four bytes, signed. Packing a number
  outside \<open>-2^31 .. 2^31 - 1\<close> raises \<^verbatim>\<open>struct.error\<close>; unpacking a string whose length is
  not four raises \<^verbatim>\<open>struct.error\<close>. The two's complement is written out on \<^typ>\<open>int\<close>.
\<close>

definition be_bytes :: "int \<Rightarrow> byte list" where
  "be_bytes u = [word_of_int (u div 2 ^ 24), word_of_int (u div 2 ^ 16),
                 word_of_int (u div 2 ^ 8), word_of_int u]"

definition be_value :: "byte \<Rightarrow> byte \<Rightarrow> byte \<Rightarrow> byte \<Rightarrow> int" where
  "be_value a b c d = uint a * 2 ^ 24 + uint b * 2 ^ 16 + uint c * 2 ^ 8 + uint d"

definition struct_pack_i :: "int \<Rightarrow> error + byte list" where
  "struct_pack_i n =
     (if - (2 ^ 31) \<le> n \<and> n \<le> 2 ^ 31 - 1 then Inr (be_bytes (n mod 2 ^ 32))
      else Inl StructError)"

definition struct_unpack_i :: "byte list \<Rightarrow> error + int" where
  "struct_unpack_i s =
     (case s of
        [a, b, c, d] \<Rightarrow>
          (let u = be_value a b c d in Inr (if 2 ^ 31 \<le> u then u - 2 ^ 32 else u))
      | _ \<Rightarrow> Inl StructError)"

section \<open>The process: handles, descriptors and pipes\<close>

text \<open>\<^verbatim>\<open>os.O_RDONLY\<close> and \<^verbatim>\<open>os.O_WRONLY\<close>, the \<^verbatim>\<open>_fd_flag\<close> of a reader and of a writer.\<close>

datatype flag = O_RDONLY | O_WRONLY

text \<open>
  A \<^verbatim>\<open>_GPipeHandle\<close> object. \<open>fd\<close> is \<^verbatim>\<open>_fd\<close> (\<open>None\<close> after \<^verbatim>\<open>close\<close>), \<open>lock\<close> is
  the counter of the \<^verbatim>\<open>gevent.lock.Semaphore(value=1)\<close> in \<^verbatim>\<open>_lock\<close>: it is 1 when the
  lock is free and 0 while an operation holds it. A \<^verbatim>\<open>_GPipeReader\<close> is a handle whose
  \<open>fd_flag\<close> is \<open>O_RDONLY\<close>, a \<^verbatim>\<open>_GPipeWriter\<close> one whose \<open>fd_flag\<close> is \<open>O_WRONLY\<close>.
  The \<^verbatim>\<open>_id\<close> drawn from \<^verbatim>\<open>os.urandom\<close> only serves \<^verbatim>\<open>__repr__\<close> and is left out.
\<close>

record handle =
  fd :: "nat option"
  fd_flag :: flag
  legit_pid :: nat
  lock :: nat
  closed :: bool

text \<open>
  A kernel pipe: the bytes written and not yet read, and the number of open descriptors
  on its read end and on its write end, over all processes.
\<close>

record kpipe =
  pbuf :: "byte list"
  nreaders :: nat
  nwriters :: nat

text \<open>
  The state of one process together with the pipes it can reach.
  \<^item> \<open>pid\<close>: what \<^verbatim>\<open>os.getpid()\<close> returns.
  \<^item> \<open>heap\<close>: the handle objects; a handle is referred to by its index.
  \<^item> \<open>all_handles\<close>: the module-level list \<^verbatim>\<open>_all_handles\<close>, a list of references.
  \<^item> \<open>fdtab\<close>: the descriptor table of the process: descriptor, pipe, end of the pipe.
  \<^item> \<open>pipes\<close>: the kernel pipes; a pipe is referred to by its index.
  \<^item> \<open>rsched\<close>, \<open>wsched\<close>: how many bytes the kernel hands over on each read and
    takes on each write (partial reads and partial writes), chosen by the environment.
  \<^item> \<open>nreads\<close>: the number of calls of \<^verbatim>\<open>_READ_NB\<close> so far.
\<close>

record world =
  pid :: nat
  heap :: "handle list"
  all_handles :: "nat list"
  fdtab :: "(nat \<times> nat \<times> flag) list"
  pipes :: "kpipe list"
  rsched :: "nat list"
  wsched :: "nat list"
  nreads :: nat

definition init_world :: "nat \<Rightarrow> nat list \<Rightarrow> nat list \<Rightarrow> world" where
  "init_world p rs ws =
     \<lparr>pid = p, heap = [], all_handles = [], fdtab = [], pipes = [],
      rsched = rs, wsched = ws, nreads = 0\<rparr>"

definition deref :: "world \<Rightarrow> nat \<Rightarrow> handle option" where
  "deref w h = (if h < length (heap w) then Some (heap w ! h) else None)"

definition upd :: "nat \<Rightarrow> (handle \<Rightarrow> handle) \<Rightarrow> world \<Rightarrow> world" where
  "upd h f w = w\<lparr>heap := (heap w)[h := f (heap w ! h)]\<rparr>"

subsection \<open>The kernel calls\<close>

text \<open>A descriptor number that is not in use.\<close>

definition fresh_fd :: "(nat \<times> nat \<times> flag) list \<Rightarrow> nat" where
  "fresh_fd tab = Suc (fold max (map fst tab) 0)"

definition drop_ref :: "flag \<Rightarrow> kpipe \<Rightarrow> kpipe" where
  "drop_ref fl k =
     (case fl of O_RDONLY \<Rightarrow> k\<lparr>nreaders := nreaders k - 1\<rparr>
               | O_WRONLY \<Rightarrow> k\<lparr>nwriters := nwriters k - 1\<rparr>)"

definition add_ref :: "flag \<Rightarrow> kpipe \<Rightarrow> kpipe" where
  "add_ref fl k =
     (case fl of O_RDONLY \<Rightarrow> k\<lparr>nreaders := Suc (nreaders k)\<rparr>
               | O_WRONLY \<Rightarrow> k\<lparr>nwriters := Suc (nwriters k)\<rparr>)"

text \<open>\<^verbatim>\<open>os.pipe()\<close>: a new pipe and two new descriptors, the read end first.\<close>

definition os_pipe :: "world \<Rightarrow> (nat \<times> nat) \<times> world" where
  "os_pipe w =
     (let r = fresh_fd (fdtab w);
          p = length (pipes w);
          tab1 = fdtab w @ [(r, p, O_RDONLY)];
          wr = fresh_fd tab1
      in ((r, wr),
          w\<lparr>fdtab := tab1 @ [(wr, p, O_WRONLY)],
            pipes := pipes w @ [\<lparr>pbuf = [], nreaders = 1, nwriters = 1\<rparr>]\<rparr>))"

text \<open>\<^verbatim>\<open>os.close(fd)\<close>: \<^verbatim>\<open>EBADF\<close> when the descriptor is not open.\<close>

definition os_close :: "nat \<Rightarrow> world \<Rightarrow> unit outcome \<times> world" where
  "os_close n w =
     (case map_of (fdtab w) n of
        None \<Rightarrow> (Raises OSError, w)
      | Some (p, fl) \<Rightarrow>
          (Returns (),
           w\<lparr>fdtab := filter (\<lambda>e. fst e \<noteq> n) (fdtab w),
             pipes := (pipes w)[p := drop_ref fl (pipes w ! p)]\<rparr>))"

text \<open>
  \<^verbatim>\<open>_READ_NB(fd, n)\<close>, that is \<^verbatim>\<open>gevent.os.nb_read\<close>: \<^verbatim>\<open>os.read\<close>, waiting cooperatively
  while the pipe is empty. It returns between 1 and \<open>n\<close> of the bytes at the front of the
  pipe, and the empty string only at end of file: the pipe is empty and no write end is
  open. \<^verbatim>\<open>os.read(None, n)\<close> is a \<^verbatim>\<open>TypeError\<close>.
\<close>

definition READ_NB :: "nat option \<Rightarrow> int \<Rightarrow> world \<Rightarrow> byte list outcome \<times> world" where
  "READ_NB f n w0 =
     (let w = w0\<lparr>nreads := Suc (nreads w0)\<rparr> in
      (case f of
        None \<Rightarrow> (Raises TypeError, w)
      | Some d \<Rightarrow>
          (case map_of (fdtab w) d of
             None \<Rightarrow> (Raises OSError, w)
           | Some (p, O_WRONLY) \<Rightarrow> (Raises OSError, w)
           | Some (p, O_RDONLY) \<Rightarrow>
               if n < 0 then (Raises OSError, w)
               else
                 let b = pbuf (pipes w ! p) in
                 if b = [] then
                   (if nwriters (pipes w ! p) = 0 then (Returns [], w) else (Suspends, w))
                 else
                   let k = (case rsched w of [] \<Rightarrow> nat n | c # cs \<Rightarrow> min (nat n) (Suc c)) in
                   (Returns (take k b),
                    w\<lparr>pipes := (pipes w)[p := (pipes w ! p)\<lparr>pbuf := drop k b\<rparr>],
                      rsched := tl (rsched w)\<rparr>))))"

text \<open>
  \<^verbatim>\<open>_WRITE_NB(fd, data)\<close>, that is \<^verbatim>\<open>gevent.os.nb_write\<close>: \<^verbatim>\<open>os.write\<close>, waiting
  cooperatively while the pipe is full (\<^verbatim>\<open>EAGAIN\<close> is handled there). It returns the
  number of bytes the kernel took: between 1 and \<open>len(data)\<close>, and 0 for empty data. Writing
  to a pipe with no open read end is \<^verbatim>\<open>EPIPE\<close>.
\<close>

definition WRITE_NB :: "nat option \<Rightarrow> byte list \<Rightarrow> world \<Rightarrow> nat outcome \<times> world" where
  "WRITE_NB f data w =
     (case f of
        None \<Rightarrow> (Raises TypeError, w)
      | Some d \<Rightarrow>
          (case map_of (fdtab w) d of
             None \<Rightarrow> (Raises OSError, w)
           | Some (p, O_RDONLY) \<Rightarrow> (Raises OSError, w)
           | Some (p, O_WRONLY) \<Rightarrow>
               if nreaders (pipes w ! p) = 0 then (Raises OSError, w)
               else
                 let k = (case wsched w of [] \<Rightarrow> length data
                                         | c # cs \<Rightarrow> min (length data) (Suc c)) in
                 (Returns k,
                  w\<lparr>pipes := (pipes w)[p := (pipes w ! p)\<lparr>pbuf := pbuf (pipes w ! p) @ take k data\<rparr>],
                    wsched := tl (wsched w)\<rparr>)))"

text \<open>
  \<^verbatim>\<open>multiprocessing.Process.start()\<close> on POSIX forks: the child holds a copy of every
  descriptor of the parent, so each open end gains one reference. The objects of the
  parent are not touched.
\<close>

definition os_fork :: "world \<Rightarrow> world" where
  "os_fork w = w\<lparr>pipes := fold (\<lambda>(d, p, fl) ps. ps[p := add_ref fl (ps ! p)]) (fdtab w) (pipes w)\<rparr>"

section \<open>\<^verbatim>\<open>_GPipeHandle\<close>\<close>

text \<open>
  \<^verbatim>\<open>_GPipeHandle.__init__\<close>, called at the end of the reader's and the writer's
  \<^verbatim>\<open>__init__\<close> with \<^verbatim>\<open>_fd\<close> and \<^verbatim>\<open>_fd_flag\<close> set. \<^verbatim>\<open>_make_nonblocking\<close> sets
  \<^verbatim>\<open>O_NONBLOCK\<close> on the descriptor, which is what lets \<^verbatim>\<open>_READ_NB\<close> and \<^verbatim>\<open>_WRITE_NB\<close>
  wait cooperatively; it changes nothing else.
\<close>

definition new_handle :: "nat \<Rightarrow> flag \<Rightarrow> world \<Rightarrow> handle" where
  "new_handle n fl w =
     \<lparr>fd = Some n, fd_flag = fl, legit_pid = pid w, lock = 1, closed = False\<rparr>"

text \<open>\<^verbatim>\<open>_validate_process\<close>: the closed check comes first, then the process check.\<close>

definition validate_process :: "nat \<Rightarrow> world \<Rightarrow> unit outcome" where
  "validate_process h w =
     (case deref w h of
        None \<Rightarrow> Raises TypeError
      | Some x \<Rightarrow>
          if closed x then Raises HandleClosedError
          else if pid w \<noteq> legit_pid x then Raises CrossProcessUseError
          else Returns ())"

text \<open>\<^verbatim>\<open>_set_legit_process\<close>.\<close>

definition set_legit_process :: "nat \<Rightarrow> world \<Rightarrow> world" where
  "set_legit_process h w = upd h (\<lambda>x. x\<lparr>legit_pid := pid w\<rparr>) w"

text \<open>
  The semaphore: \<^verbatim>\<open>acquire\<close> takes the counter down when it is positive,
  \<^verbatim>\<open>release\<close> takes it up.
\<close>

definition acquire :: "nat \<Rightarrow> world \<Rightarrow> world" where
  "acquire h w = upd h (\<lambda>x. x\<lparr>lock := lock x - 1\<rparr>) w"

definition release :: "nat \<Rightarrow> world \<Rightarrow> world" where
  "release h w = upd h (\<lambda>x. x\<lparr>lock := Suc (lock x)\<rparr>) w"

text \<open>
  \<^verbatim>\<open>close\<close>. The lock is taken with \<^verbatim>\<open>acquire(blocking=False)\<close> and released by the last
  statement; there is no \<^verbatim>\<open>try\<close>, so an exception of \<^verbatim>\<open>os.close\<close> leaves it taken.
  \<^verbatim>\<open>_all_handles.remove(self)\<close> removes the first occurrence.
\<close>

definition close :: "nat \<Rightarrow> world \<Rightarrow> unit outcome \<times> world" where
  "close h w =
     (case validate_process h w of
        Raises e \<Rightarrow> (Raises e, w)
      | Suspends \<Rightarrow> (Suspends, w)
      | Returns _ \<Rightarrow>
          if lock (heap w ! h) = 0 then (Raises HandleLockedError, w)
          else
            let w1 = acquire h w;
                w2 = upd h (\<lambda>x. x\<lparr>closed := True\<rparr>) w1;
                r3 = (case fd (heap w2 ! h) of
                        None \<Rightarrow> (Returns (), w2)
                      | Some n \<Rightarrow>
                          (case os_close n w2 of
                             (Returns _, w') \<Rightarrow> (Returns (), upd h (\<lambda>x. x\<lparr>fd := None\<rparr>) w')
                           | (Raises e, w') \<Rightarrow> (Raises e, w')
                           | (Suspends, w') \<Rightarrow> (Suspends, w')))
            in (case r3 of
                  (Returns _, w3) \<Rightarrow>
                    (let w4 = (if h \<in> set (all_handles w3)
                               then w3\<lparr>all_handles := remove1 h (all_handles w3)\<rparr> else w3)
                     in (Returns (), release h w4))
                | (Raises e, w3) \<Rightarrow> (Raises e, w3)
                | (Suspends, w3) \<Rightarrow> (Suspends, w3)))"

section \<open>\<^verbatim>\<open>_GPipeReader\<close>\<close>

text \<open>
  The loop of \<^verbatim>\<open>_recv_in_buffer\<close>; \<open>readbuf\<close> is the content of the \<^verbatim>\<open>BytesIO\<close>. Every
  round that goes on has read at least one byte, so the loop ends.
\<close>

function recv_loop :: "nat \<Rightarrow> int \<Rightarrow> int \<Rightarrow> byte list \<Rightarrow> world \<Rightarrow> byte list outcome \<times> world" where
  "recv_loop h sz remaining readbuf w =
     (if remaining > 0 then
        (case READ_NB (fd (heap w ! h)) remaining w of
           (Returns chunk, w') \<Rightarrow>
             (let n = int (length chunk) in
              if n = 0 then
                (if remaining = sz then (Raises PipeEOFError, w')
                 else (Raises TruncatedMessageError, w'))
              else recv_loop h sz (remaining - n) (readbuf @ chunk) w')
         | (Raises e, w') \<Rightarrow> (Raises e, w')
         | (Suspends, w') \<Rightarrow> (Suspends, w'))
      else (Returns readbuf, w))"
  by pat_completeness auto
termination
  by (relation "measure (\<lambda>(h, sz, remaining, readbuf, w). nat remaining)") auto

declare recv_loop.simps [simp del]

definition recv_in_buffer :: "nat \<Rightarrow> int \<Rightarrow> world \<Rightarrow> byte list outcome \<times> world" where
  "recv_in_buffer h sz w = recv_loop h sz sz [] w"

text \<open>
  The body of \<^verbatim>\<open>with self._lock\<close>: the lock is released when the body returns or
  raises; a body that is suspended keeps it.
\<close>

definition with_lock :: "nat \<Rightarrow> (world \<Rightarrow> 'a outcome \<times> world) \<Rightarrow> world \<Rightarrow> 'a outcome \<times> world" where
  "with_lock h body w =
     (if lock (heap w ! h) = 0 then (Suspends, w)
      else
        (case body (acquire h w) of
           (Suspends, w') \<Rightarrow> (Suspends, w')
         | (r, w') \<Rightarrow> (r, release h w')))"

text \<open>
  \<^verbatim>\<open>get\<close>. \<open>loads\<close> is \<^verbatim>\<open>pickle.loads\<close>. The method exists on readers only.
\<close>

definition get_body :: "(byte list \<Rightarrow> error + 'o) \<Rightarrow> nat \<Rightarrow> world \<Rightarrow> 'o outcome \<times> world" where
  "get_body loads h w =
     (case recv_in_buffer h 4 w of
        (Returns hdr, w1) \<Rightarrow>
          (case struct_unpack_i hdr of
             Inl e \<Rightarrow> (Raises e, w1)
           | Inr msize \<Rightarrow>
               (case recv_in_buffer h msize w1 of
                  (Returns bindata, w2) \<Rightarrow>
                    (case loads bindata of
                       Inl e \<Rightarrow> (Raises e, w2)
                     | Inr v \<Rightarrow> (Returns v, w2))
                | (Raises e, w2) \<Rightarrow> (Raises e, w2)
                | (Suspends, w2) \<Rightarrow> (Suspends, w2)))
      | (Raises e, w1) \<Rightarrow> (Raises e, w1)
      | (Suspends, w1) \<Rightarrow> (Suspends, w1))"

definition get :: "(byte list \<Rightarrow> error + 'o) \<Rightarrow> nat \<Rightarrow> world \<Rightarrow> 'o outcome \<times> world" where
  "get loads h w =
     (case deref w h of
        None \<Rightarrow> (Raises TypeError, w)
      | Some x \<Rightarrow>
          if fd_flag x \<noteq> O_RDONLY then (Raises AttributeError, w)
          else
            (case validate_process h w of
               Raises e \<Rightarrow> (Raises e, w)
             | Suspends \<Rightarrow> (Suspends, w)
             | Returns _ \<Rightarrow> with_lock h (get_body loads h) w))"

section \<open>\<^verbatim>\<open>_GPipeWriter\<close>\<close>

text \<open>Python's \<^verbatim>\<open>s[i:]\<close> for an integer \<open>i\<close>; a negative \<open>i\<close> counts from the end.\<close>

definition slice_from :: "int \<Rightarrow> 'a list \<Rightarrow> 'a list" where
  "slice_from i s = (if i < 0 then drop (nat (int (length s) + i)) s else drop (nat i) s)"

text \<open>
  The loop of \<^verbatim>\<open>_write\<close> (\<open>write\<close> is a keyword of Isabelle). A write of a non-empty string takes at least one byte, so the
  rest gets shorter and the loop ends.
\<close>

function write_pipe :: "nat \<Rightarrow> byte list \<Rightarrow> world \<Rightarrow> unit outcome \<times> world" where
  "write_pipe h bindata w =
     (case WRITE_NB (fd (heap w ! h)) bindata w of
        (Returns k, w') \<Rightarrow>
          (let diff = int (length bindata) - int k in
           if diff = 0 then (Returns (), w')
           else write_pipe h (slice_from (- diff) bindata) w')
      | (Raises e, w') \<Rightarrow> (Raises e, w')
      | (Suspends, w') \<Rightarrow> (Suspends, w'))"
  by pat_completeness auto
termination
proof (relation "measure (\<lambda>(h, bindata, w). length bindata)")
  show "wf (measure (\<lambda>(h, bindata, w). length bindata))" by simp
next
  fix h :: nat and bindata :: "byte list" and w :: world and x y k diff
  assume r: "(x, y) = WRITE_NB (fd (heap w ! h)) bindata w" "x = Returns k"
    and d: "diff = int (length bindata) - int k" "diff \<noteq> 0"
  from r have "WRITE_NB (fd (heap w ! h)) bindata w = (Returns k, y)" by simp
  then have "k \<le> length bindata \<and> (bindata \<noteq> [] \<longrightarrow> 0 < k)"
    by (auto simp: WRITE_NB_def Let_def split: option.splits flag.splits if_splits list.splits)
  with d have "0 < k" "k \<le> length bindata" by auto
  with d show "((h, slice_from (- diff) bindata, y), (h, bindata, w))
      \<in> measure (\<lambda>(h, bindata, w). length bindata)"
    by (simp add: slice_from_def)
qed

declare write_pipe.simps [simp del]

text \<open>
  \<^verbatim>\<open>put\<close>. \<open>dumps\<close> is \<^verbatim>\<open>pickle.dumps(o, pickle.HIGHEST_PROTOCOL)\<close>. The method
  exists on writers only.
\<close>

definition put_body :: "('o \<Rightarrow> byte list) \<Rightarrow> nat \<Rightarrow> 'o \<Rightarrow> world \<Rightarrow> unit outcome \<times> world" where
  "put_body dumps h v w =
     (let bindata = dumps v in
      (case struct_pack_i (int (length bindata)) of
         Inl e \<Rightarrow> (Raises e, w)
       | Inr hdr \<Rightarrow>
           (case write_pipe h hdr w of
              (Returns _, w1) \<Rightarrow> write_pipe h bindata w1
            | (Raises e, w1) \<Rightarrow> (Raises e, w1)
            | (Suspends, w1) \<Rightarrow> (Suspends, w1))))"

definition put :: "('o \<Rightarrow> byte list) \<Rightarrow> nat \<Rightarrow> 'o \<Rightarrow> world \<Rightarrow> unit outcome \<times> world" where
  "put dumps h v w =
     (case deref w h of
        None \<Rightarrow> (Raises TypeError, w)
      | Some x \<Rightarrow>
          if fd_flag x \<noteq> O_WRONLY then (Raises AttributeError, w)
          else
            (case validate_process h w of
               Raises e \<Rightarrow> (Raises e, w)
             | Suspends \<Rightarrow> (Suspends, w)
             | Returns _ \<Rightarrow> with_lock h (put_body dumps h v) w))"

section \<open>\<^verbatim>\<open>pipe\<close> and \<^verbatim>\<open>start_process\<close>\<close>

text \<open>\<^verbatim>\<open>pipe()\<close>: returns the references of the new reader and of the new writer.\<close>

definition pipe :: "world \<Rightarrow> (nat \<times> nat) \<times> world" where
  "pipe w =
     (case os_pipe w of
        ((r, wr), w1) \<Rightarrow>
          (let reader = length (heap w1);
               w2 = w1\<lparr>heap := heap w1 @ [new_handle r O_RDONLY w1]\<rparr>;
               writer = length (heap w2);
               w3 = w2\<lparr>heap := heap w2 @ [new_handle wr O_WRONLY w2]\<rparr>;
               w4 = w3\<lparr>all_handles := all_handles w3 @ [reader]\<rparr>;
               w5 = w4\<lparr>all_handles := all_handles w4 @ [writer]\<rparr>
           in ((reader, writer), w5)))"

text \<open>The loop \<^verbatim>\<open>for h in childhandles: h.close()\<close>; an exception ends it.\<close>

fun close_each :: "nat list \<Rightarrow> world \<Rightarrow> unit outcome \<times> world" where
  "close_each [] w = (Returns (), w)"
| "close_each (h # hs) w =
     (case close h w of
        (Returns _, w') \<Rightarrow> close_each hs w'
      | (Raises e, w') \<Rightarrow> (Raises e, w')
      | (Suspends, w') \<Rightarrow> (Suspends, w'))"

text \<open>
  \<^verbatim>\<open>start_process\<close> in the parent, on POSIX: \<^verbatim>\<open>WINDOWS\<close> is false there, so the two
  loops over \<^verbatim>\<open>_all_handles\<close> guarded by it are not run. \<open>childhandles\<close> is the list or
  tuple after a single handle has been wrapped. The \<^verbatim>\<open>_GProcess\<close> object returned is
  not part of the state of the handles.
\<close>

definition start_process :: "nat list \<Rightarrow> world \<Rightarrow> unit outcome \<times> world" where
  "start_process childhandles w = close_each childhandles (os_fork w)"

section \<open>Endpoints\<close>

text \<open>
  The pipe and the end of it that the descriptor of a handle refers to, if the handle
  has a descriptor and the descriptor is open.
\<close>

definition endpoint_of :: "world \<Rightarrow> nat \<Rightarrow> (nat \<times> flag) option" where
  "endpoint_of w h =
     (case deref w h of
        None \<Rightarrow> None
      | Some x \<Rightarrow> (case fd x of None \<Rightarrow> None | Some d \<Rightarrow> map_of (fdtab w) d))"




section \<open>Example states\<close>

text \<open>A pickle that carries byte strings as they are.\<close>

definition bytes_dumps :: "byte list \<Rightarrow> byte list" where
  "bytes_dumps v = v"

definition bytes_loads :: "byte list \<Rightarrow> error + byte list" where
  "bytes_loads s = Inr s"

text \<open>
  Process 100 after \<^verbatim>\<open>pipe()\<close>: the reader is handle 0, the writer is handle 1; the
  kernel hands over and takes one byte at a time at first.
\<close>

definition fresh_pair :: world where
  "fresh_pair = snd (pipe (init_world 100 [0, 0, 1] [0, 1]))"

text \<open>The same process while a \<^verbatim>\<open>get\<close> on the reader waits for data.\<close>

definition reader_waiting :: world where
  "reader_waiting = snd (get bytes_loads 0 fresh_pair)"

text \<open>
  The copy of that state in a forked child, process 101, before \<^verbatim>\<open>_child\<close> has
  called \<^verbatim>\<open>_set_legit_process\<close>: the lock of the reader is still taken and the handles
  are registered for process 100.
\<close>

definition forked_copy :: world where
  "forked_copy = reader_waiting\<lparr>pid := 101\<rparr>"

text \<open>A process 2 holding two closed handles that are registered for process 1.\<close>

definition closed_foreign :: world where
  "closed_foreign =
     \<lparr>pid = 2,
      heap = [\<lparr>fd = None, fd_flag = O_RDONLY, legit_pid = 1, lock = 1, closed = True\<rparr>,
              \<lparr>fd = None, fd_flag = O_WRONLY, legit_pid = 1, lock = 1, closed = True\<rparr>],
      all_handles = [], fdtab = [], pipes = [], rsched = [], wsched = [], nreads = 0\<rparr>"

text \<open>The pair after one message has been put and the writer closed.\<close>

definition writer_closed :: world where
  "writer_closed = snd (close 1 (snd (put bytes_dumps 1 [9] fresh_pair)))"

text \<open>The pair after the writer has been closed with nothing written.\<close>

definition writer_closed_empty :: world where
  "writer_closed_empty = snd (close 1 fresh_pair)"



section \<open>Reading and writing a pipe\<close>

lemma endpoint_ofD:
  "endpoint_of w h = Some (p, fl) \<Longrightarrow>
     h < length (heap w) \<and> (\<exists>d. fd (heap w ! h) = Some d \<and> map_of (fdtab w) d = Some (p, fl))"
  by (auto simp: endpoint_of_def deref_def split: option.splits if_splits)

lemma READ_NB_nonempty:
  assumes "endpoint_of w h = Some (p, O_RDONLY)" and "0 < n" and "pbuf (pipes w ! p) \<noteq> []"
  shows "\<exists>k. 0 < k \<and> k \<le> nat n \<and>
           READ_NB (fd (heap w ! h)) n w =
             (Returns (take k (pbuf (pipes w ! p))),
              w\<lparr>pipes := (pipes w)[p := (pipes w ! p)\<lparr>pbuf := drop k (pbuf (pipes w ! p))\<rparr>],
                rsched := tl (rsched w), nreads := Suc (nreads w)\<rparr>)"
proof -
  from endpoint_ofD [OF assms(1)] obtain d where
    d: "fd (heap w ! h) = Some d" "map_of (fdtab w) d = Some (p, O_RDONLY)" by blast
  define k where "k = (case rsched w of [] \<Rightarrow> nat n | c # cs \<Rightarrow> min (nat n) (Suc c))"
  have k: "0 < k" "k \<le> nat n" using assms(2) by (auto simp: k_def split: list.splits)
  have "READ_NB (fd (heap w ! h)) n w =
             (Returns (take k (pbuf (pipes w ! p))),
              w\<lparr>pipes := (pipes w)[p := (pipes w ! p)\<lparr>pbuf := drop k (pbuf (pipes w ! p))\<rparr>],
                rsched := tl (rsched w), nreads := Suc (nreads w)\<rparr>)"
    using d assms(2,3) by (simp add: READ_NB_def Let_def k_def)
  with k show ?thesis by blast
qed

lemma READ_NB_empty:
  assumes "endpoint_of w h = Some (p, O_RDONLY)" and "0 < n" and "pbuf (pipes w ! p) = []"
  shows "READ_NB (fd (heap w ! h)) n w =
           ((if nwriters (pipes w ! p) = 0 then Returns [] else Suspends),
            w\<lparr>nreads := Suc (nreads w)\<rparr>)"
proof -
  from endpoint_ofD [OF assms(1)] obtain d where
    d: "fd (heap w ! h) = Some d" "map_of (fdtab w) d = Some (p, O_RDONLY)" by blast
  show ?thesis using d assms(2,3) by (simp add: READ_NB_def Let_def)
qed

lemma endpoint_of_read_step:
  "endpoint_of (w\<lparr>pipes := ps, rsched := rs, nreads := k\<rparr>) h = endpoint_of w h"
  by (simp add: endpoint_of_def deref_def split: option.splits)

lemma recv_loop_enough:
  assumes "endpoint_of w h = Some (p, O_RDONLY)" and "p < length (pipes w)"
    and "nat remaining \<le> length (pbuf (pipes w ! p))"
  shows "\<exists>rs k. recv_loop h sz remaining rb w =
           (Returns (rb @ take (nat remaining) (pbuf (pipes w ! p))),
            w\<lparr>pipes := (pipes w)[p := (pipes w ! p)\<lparr>pbuf := drop (nat remaining) (pbuf (pipes w ! p))\<rparr>],
              rsched := rs, nreads := k\<rparr>)"
  using assms
proof (induction "nat remaining" arbitrary: remaining rb w rule: less_induct)
  case less
  define b where "b = pbuf (pipes w ! p)"
  show ?case
  proof (cases "0 < remaining")
    case False
    then have "recv_loop h sz remaining rb w = (Returns rb, w)"
      by (simp add: recv_loop.simps)
    moreover have "w = w\<lparr>pipes := (pipes w)[p := (pipes w ! p)\<lparr>pbuf := drop (nat remaining) (pbuf (pipes w ! p))\<rparr>],
              rsched := rsched w, nreads := nreads w\<rparr>"
      using False by simp
    ultimately show ?thesis using False by (metis append_Nil2 nat_le_0 not_less take_0)
  next
    case True
    with less.prems have ne: "pbuf (pipes w ! p) \<noteq> []" by auto
    from READ_NB_nonempty [OF less.prems(1) True ne] obtain k where
      k: "0 < k" "k \<le> nat remaining"
      and rd: "READ_NB (fd (heap w ! h)) remaining w =
             (Returns (take k b),
              w\<lparr>pipes := (pipes w)[p := (pipes w ! p)\<lparr>pbuf := drop k b\<rparr>],
                rsched := tl (rsched w), nreads := Suc (nreads w)\<rparr>)"
      unfolding b_def by blast
    define w1 where "w1 = w\<lparr>pipes := (pipes w)[p := (pipes w ! p)\<lparr>pbuf := drop k b\<rparr>],
                rsched := tl (rsched w), nreads := Suc (nreads w)\<rparr>"
    have kb: "k \<le> length b" using k less.prems(3) by (simp add: b_def)
    have len: "int (length (take k b)) = int k" using kb by simp
    have b1: "pbuf (pipes w1 ! p) = drop k b" using less.prems(2) by (simp add: w1_def)
    have e1: "endpoint_of w1 h = Some (p, O_RDONLY)"
      unfolding w1_def endpoint_of_read_step by (rule less.prems(1))
    have p1: "p < length (pipes w1)" using less.prems(2) by (simp add: w1_def)
    have m1: "nat (remaining - int k) < nat remaining" using k True by simp
    have n1: "nat (remaining - int k) \<le> length (pbuf (pipes w1 ! p))"
      using less.prems(3) k by (simp add: b1 b_def)
    from less.hyps [OF m1 e1 p1 n1, of "rb @ take k b"] obtain rs j where
      ih: "recv_loop h sz (remaining - int k) (rb @ take k b) w1 =
             (Returns ((rb @ take k b) @ take (nat (remaining - int k)) (pbuf (pipes w1 ! p))),
              w1\<lparr>pipes := (pipes w1)[p := (pipes w1 ! p)\<lparr>pbuf := drop (nat (remaining - int k)) (pbuf (pipes w1 ! p))\<rparr>],
                rsched := rs, nreads := j\<rparr>)" by blast
    have step: "recv_loop h sz remaining rb w = recv_loop h sz (remaining - int k) (rb @ take k b) w1"
      using True k kb by (subst recv_loop.simps) (simp add: rd w1_def [symmetric] Let_def)
    have nk: "nat (remaining - int k) = nat remaining - k" using k by simp
    have v: "(rb @ take k b) @ take (nat (remaining - int k)) (pbuf (pipes w1 ! p)) = rb @ take (nat remaining) b"
      using k by (simp add: b1 nk take_add [symmetric])
    have s: "w1\<lparr>pipes := (pipes w1)[p := (pipes w1 ! p)\<lparr>pbuf := drop (nat (remaining - int k)) (pbuf (pipes w1 ! p))\<rparr>],
                rsched := rs, nreads := j\<rparr> =
             w\<lparr>pipes := (pipes w)[p := (pipes w ! p)\<lparr>pbuf := drop (nat remaining) b\<rparr>],
              rsched := rs, nreads := j\<rparr>"
      using less.prems(2) k by (simp add: w1_def nk)
    show ?thesis unfolding step ih v s b_def [symmetric] by blast
  qed
qed

lemma recv_loop_short:
  assumes "endpoint_of w h = Some (p, O_RDONLY)" and "p < length (pipes w)"
    and "length (pbuf (pipes w ! p)) < nat remaining" and "remaining \<le> sz"
  shows "fst (recv_loop h sz remaining rb w) =
           (if nwriters (pipes w ! p) = 0
            then Raises (if pbuf (pipes w ! p) = [] \<and> remaining = sz then PipeEOFError
                         else TruncatedMessageError)
            else Suspends)"
  using assms
proof (induction "length (pbuf (pipes w ! p))" arbitrary: remaining rb w rule: less_induct)
  case less
  define b where "b = pbuf (pipes w ! p)"
  from less.prems(3) have pos: "0 < remaining" by simp
  show ?case
  proof (cases "b = []")
    case True
    then show ?thesis
      using pos READ_NB_empty [OF less.prems(1) pos]
      by (subst recv_loop.simps) (simp add: b_def Let_def)
  next
    case False
    from READ_NB_nonempty [OF less.prems(1) pos] False obtain k where
      k: "0 < k" "k \<le> nat remaining"
      and rd: "READ_NB (fd (heap w ! h)) remaining w =
             (Returns (take k b),
              w\<lparr>pipes := (pipes w)[p := (pipes w ! p)\<lparr>pbuf := drop k b\<rparr>],
                rsched := tl (rsched w), nreads := Suc (nreads w)\<rparr>)"
      unfolding b_def by blast
    define w1 where "w1 = w\<lparr>pipes := (pipes w)[p := (pipes w ! p)\<lparr>pbuf := drop k b\<rparr>],
                rsched := tl (rsched w), nreads := Suc (nreads w)\<rparr>"
    define m where "m = min k (length b)"
    have m: "0 < m" "length (take k b) = m" "m \<le> length b"
      using k False by (auto simp: m_def)
    have b1: "pbuf (pipes w1 ! p) = drop k b" using less.prems(2) by (simp add: w1_def)
    have nw: "nwriters (pipes w1 ! p) = nwriters (pipes w ! p)"
      using less.prems(2) by (simp add: w1_def)
    have e1: "endpoint_of w1 h = Some (p, O_RDONLY)"
      unfolding w1_def endpoint_of_read_step by (rule less.prems(1))
    have p1: "p < length (pipes w1)" using less.prems(2) by (simp add: w1_def)
    have l1: "length (pbuf (pipes w1 ! p)) < length (pbuf (pipes w ! p))"
      using k False by (simp add: b1 b_def [symmetric])
    have s1: "length (pbuf (pipes w1 ! p)) < nat (remaining - int m)"
      using less.prems(3) m k by (auto simp: b1 b_def [symmetric] m_def)
    have r1: "remaining - int m \<le> sz" "remaining - int m \<noteq> sz"
      using less.prems(4) m by simp_all
    have step: "recv_loop h sz remaining rb w = recv_loop h sz (remaining - int m) (rb @ take k b) w1"
      using pos m by (subst recv_loop.simps) (simp add: rd w1_def [symmetric] Let_def)
    show ?thesis
      unfolding step less.hyps [OF l1 e1 p1 s1 r1(1)] nw
      using r1(2) False by (simp add: b_def)
  qed
qed











lemma fd_lock_update:
  "h < length xs \<Longrightarrow> fd (xs[h' := (xs ! h')\<lparr>lock := n\<rparr>] ! h) = fd (xs ! h)"
  by (cases "h = h'") simp_all

lemma endpoint_of_acquire [simp]: "endpoint_of (acquire h' w) h = endpoint_of w h"
  by (simp add: endpoint_of_def deref_def acquire_def upd_def fd_lock_update cong: option.case_cong)

lemma pipes_acquire [simp]: "pipes (acquire h w) = pipes w"
  by (simp add: acquire_def upd_def)















section \<open>Evaluation of the example states\<close>

lemmas eval_defs =
  pipe_def os_pipe_def init_world_def deref_def validate_process_def with_lock_def
  get_def get_body_def put_def put_body_def recv_in_buffer_def recv_loop.simps
  write_pipe.simps READ_NB_def WRITE_NB_def os_close_def os_fork_def close_def
  start_process_def struct_pack_i_def struct_unpack_i_def be_bytes_def be_value_def
  acquire_def release_def upd_def new_handle_def fresh_fd_def slice_from_def
  drop_ref_def add_ref_def bytes_dumps_def bytes_loads_def Let_def

lemma fresh_pair_eq:
  "fresh_pair =
     \<lparr>pid = 100,
      heap = [\<lparr>fd = Some 1, fd_flag = O_RDONLY, legit_pid = 100, lock = 1, closed = False\<rparr>,
              \<lparr>fd = Some 2, fd_flag = O_WRONLY, legit_pid = 100, lock = 1, closed = False\<rparr>],
      all_handles = [0, 1], fdtab = [(1, 0, O_RDONLY), (2, 0, O_WRONLY)],
      pipes = [\<lparr>pbuf = [], nreaders = 1, nwriters = 1\<rparr>],
      rsched = [0, 0, 1], wsched = [0, 1], nreads = 0\<rparr>"
  by (simp add: fresh_pair_def eval_defs)

lemma reader_waiting_eq:
  "reader_waiting =
     \<lparr>pid = 100,
      heap = [\<lparr>fd = Some 1, fd_flag = O_RDONLY, legit_pid = 100, lock = 0, closed = False\<rparr>,
              \<lparr>fd = Some 2, fd_flag = O_WRONLY, legit_pid = 100, lock = 1, closed = False\<rparr>],
      all_handles = [0, 1], fdtab = [(1, 0, O_RDONLY), (2, 0, O_WRONLY)],
      pipes = [\<lparr>pbuf = [], nreaders = 1, nwriters = 1\<rparr>],
      rsched = [0, 0, 1], wsched = [0, 1], nreads = 1\<rparr>"
  by (simp add: reader_waiting_def fresh_pair_eq eval_defs)

lemma reader_waiting_suspended: "fst (get bytes_loads 0 fresh_pair) = Suspends"
  by (simp add: fresh_pair_eq eval_defs)

section \<open>Validation and locking\<close>

text \<open>
  C9. \<^verbatim>\<open>_recv_in_buffer(0)\<close> returns the empty buffer and leaves the whole state as it
  was: \<^verbatim>\<open>_READ_NB\<close> is not called (\<open>nreads\<close> is part of the state), so neither
  \<^verbatim>\<open>EOFError\<close> nor the truncation error can be raised, whatever the state of the pipe,
  also when every write end is closed.
\<close>

theorem recv_in_buffer_zero: "recv_in_buffer h 0 w = (Returns [], w)"
  by (simp add: recv_in_buffer_def recv_loop.simps)

text \<open>
  C10. On a handle that is closed and registered for another process,
  \<^verbatim>\<open>_validate_process\<close> raises the closed-handle error, and so do \<^verbatim>\<open>close\<close>, \<^verbatim>\<open>get\<close>
  (on a reader) and \<^verbatim>\<open>put\<close> (on a writer), leaving the state as it was.
\<close>

theorem closed_check_takes_precedence:
  "deref w h = Some x \<Longrightarrow> closed x \<Longrightarrow> legit_pid x \<noteq> pid w \<Longrightarrow>
     validate_process h w = Raises HandleClosedError \<and>
     close h w = (Raises HandleClosedError, w) \<and>
     (fd_flag x = O_RDONLY \<longrightarrow> get loads h w = (Raises HandleClosedError, w)) \<and>
     (fd_flag x = O_WRONLY \<longrightarrow> put dumps h v w = (Raises HandleClosedError, w))"
  by (simp add: validate_process_def close_def get_def put_def)

theorem closed_check_takes_precedence_witness:
  "validate_process 0 closed_foreign = Raises HandleClosedError \<and>
   close 0 closed_foreign = (Raises HandleClosedError, closed_foreign) \<and>
   get bytes_loads 0 closed_foreign = (Raises HandleClosedError, closed_foreign) \<and>
   put bytes_dumps 1 [7] closed_foreign = (Raises HandleClosedError, closed_foreign) \<and>
   HandleClosedError \<noteq> CrossProcessUseError"
proof -
  have r: "deref closed_foreign 0 = Some (heap closed_foreign ! 0)"
    and w: "deref closed_foreign 1 = Some (heap closed_foreign ! 1)"
    by (simp_all add: deref_def closed_foreign_def)
  have c: "closed (heap closed_foreign ! 0)" "closed (heap closed_foreign ! 1)"
    and p: "legit_pid (heap closed_foreign ! 0) \<noteq> pid closed_foreign"
      "legit_pid (heap closed_foreign ! 1) \<noteq> pid closed_foreign"
    and f: "fd_flag (heap closed_foreign ! 0) = O_RDONLY"
      "fd_flag (heap closed_foreign ! 1) = O_WRONLY"
    by (simp_all add: closed_foreign_def)
  show ?thesis
    using closed_check_takes_precedence [OF r c(1) p(1), of bytes_loads bytes_dumps "[7]"]
      closed_check_takes_precedence [OF w c(2) p(2), of bytes_loads bytes_dumps "[7]"] f
    by (simp add: HandleClosedError_def CrossProcessUseError_def)
qed

text \<open>
  C5. \<^verbatim>\<open>close\<close> on a handle of the current process whose lock is taken by an operation
  in flight raises the locked-handle error at once and leaves the whole state as it
  was: the handle stays open, keeps its descriptor, stays in \<^verbatim>\<open>_all_handles\<close>, and the
  lock stays with the operation that holds it.
\<close>

theorem close_locked_handle:
  "deref w h = Some x \<Longrightarrow> \<not> closed x \<Longrightarrow> legit_pid x = pid w \<Longrightarrow> lock x = 0 \<Longrightarrow>
     close h w = (Raises HandleLockedError, w)"
  by (simp add: validate_process_def close_def deref_def split: if_splits)

theorem close_locked_handle_witness:
  "fst (get bytes_loads 0 fresh_pair) = Suspends \<and>
   close 0 reader_waiting = (Raises HandleLockedError, reader_waiting) \<and>
   \<not> closed (heap reader_waiting ! 0) \<and> fd (heap reader_waiting ! 0) = Some 1 \<and>
   0 \<in> set (all_handles reader_waiting) \<and> lock (heap reader_waiting ! 0) = 0"
proof -
  have d: "deref reader_waiting 0 = Some (heap reader_waiting ! 0)"
    by (simp add: deref_def reader_waiting_eq)
  have c: "\<not> closed (heap reader_waiting ! 0)"
    and p: "legit_pid (heap reader_waiting ! 0) = pid reader_waiting"
    and l: "lock (heap reader_waiting ! 0) = 0"
    by (simp_all add: reader_waiting_eq)
  show ?thesis
    using close_locked_handle [OF d c p l] reader_waiting_suspended
    by (simp add: reader_waiting_eq)
qed

text \<open>
  C8, as the claim states it, fails. In the forked copy the lock of the reader is taken
  and the handle is registered for another process; \<^verbatim>\<open>get\<close> raises at once and does
  not wait for the lock. The same holds for \<^verbatim>\<open>put\<close> on a writer whose lock is taken.
\<close>

theorem validation_after_lock_counterexample:
  "lock (heap forked_copy ! 0) = 0 \<and>
   get bytes_loads 0 forked_copy = (Raises CrossProcessUseError, forked_copy) \<and>
   fst (get bytes_loads 0 forked_copy) \<noteq> Suspends"
  by (simp add: forked_copy_def reader_waiting_eq get_def deref_def validate_process_def)

text \<open>
  C8, amended. \<^verbatim>\<open>get\<close> and \<^verbatim>\<open>put\<close> call \<^verbatim>\<open>_validate_process\<close> first, outside the
  critical section, and enter \<^verbatim>\<open>with self._lock\<close> afterwards: a call on a closed handle
  or from the wrong process raises at once, whether the lock is taken or not, and leaves
  the state as it was; only a call that has passed the validation waits for a lock that
  is taken.
\<close>

theorem validation_before_lock:
  "deref w h = Some x \<Longrightarrow>
     (validate_process h w = Raises e \<longrightarrow>
        (fd_flag x = O_RDONLY \<longrightarrow> get loads h w = (Raises e, w)) \<and>
        (fd_flag x = O_WRONLY \<longrightarrow> put dumps h v w = (Raises e, w))) \<and>
     (validate_process h w = Returns () \<and> lock x = 0 \<longrightarrow>
        (fd_flag x = O_RDONLY \<longrightarrow> get loads h w = (Suspends, w)) \<and>
        (fd_flag x = O_WRONLY \<longrightarrow> put dumps h v w = (Suspends, w)))"
  by (auto simp add: get_def put_def with_lock_def deref_def split: if_splits)

theorem validation_before_lock_witness:
  "validate_process 0 closed_foreign = Raises HandleClosedError \<and>
   get bytes_loads 0 closed_foreign = (Raises HandleClosedError, closed_foreign) \<and>
   validate_process 0 reader_waiting = Returns () \<and>
   lock (heap reader_waiting ! 0) = 0 \<and>
   get bytes_loads 0 reader_waiting = (Suspends, reader_waiting)"
proof -
  have d1: "deref closed_foreign 0 = Some (heap closed_foreign ! 0)"
    by (simp add: deref_def closed_foreign_def)
  have d2: "deref reader_waiting 0 = Some (heap reader_waiting ! 0)"
    by (simp add: deref_def reader_waiting_eq)
  have v1: "validate_process 0 closed_foreign = Raises HandleClosedError"
    by (simp add: validate_process_def deref_def closed_foreign_def)
  have v2: "validate_process 0 reader_waiting = Returns ()"
    by (simp add: validate_process_def deref_def reader_waiting_eq)
  have f1: "fd_flag (heap closed_foreign ! 0) = O_RDONLY"
    by (simp add: closed_foreign_def)
  have f2: "fd_flag (heap reader_waiting ! 0) = O_RDONLY" "lock (heap reader_waiting ! 0) = 0"
    by (simp_all add: reader_waiting_eq)
  show ?thesis
    using validation_before_lock [OF d1, of HandleClosedError bytes_loads bytes_dumps "[]"]
      validation_before_lock [OF d2, of HandleClosedError bytes_loads bytes_dumps "[]"]
      v1 v2 f1 f2
    by simp
qed

lemma writer_closed_eq:
  "writer_closed =
     \<lparr>pid = 100,
      heap = [\<lparr>fd = Some 1, fd_flag = O_RDONLY, legit_pid = 100, lock = 1, closed = False\<rparr>,
              \<lparr>fd = None, fd_flag = O_WRONLY, legit_pid = 100, lock = 1, closed = True\<rparr>],
      all_handles = [0], fdtab = [(1, 0, O_RDONLY)],
      pipes = [\<lparr>pbuf = [0, 0, 0, 1, 9], nreaders = 1, nwriters = 0\<rparr>],
      rsched = [0, 0, 1], wsched = [], nreads = 0\<rparr>"
  by (simp add: writer_closed_def fresh_pair_eq eval_defs)

lemma writer_closed_empty_eq:
  "writer_closed_empty =
     \<lparr>pid = 100,
      heap = [\<lparr>fd = Some 1, fd_flag = O_RDONLY, legit_pid = 100, lock = 1, closed = False\<rparr>,
              \<lparr>fd = None, fd_flag = O_WRONLY, legit_pid = 100, lock = 1, closed = True\<rparr>],
      all_handles = [0], fdtab = [(1, 0, O_RDONLY)],
      pipes = [\<lparr>pbuf = [], nreaders = 1, nwriters = 0\<rparr>],
      rsched = [0, 0, 1], wsched = [0, 1], nreads = 0\<rparr>"
  by (simp add: writer_closed_empty_def fresh_pair_eq eval_defs)




section \<open>The exact read\<close>

text \<open>
  C4. \<^verbatim>\<open>_recv_in_buffer(size)\<close> with \<open>size > 0\<close> on a reader whose descriptor is the read
  end of pipe \<open>p\<close>. \<^verbatim>\<open>_READ_NB\<close> returns zero bytes exactly when the pipe is empty and no
  write end is open.
  \<^item> The pipe is at end of file when the call starts, so the first read returns zero
    bytes and nothing has been collected: \<^verbatim>\<open>EOFError\<close>.
  \<^item> The pipe holds some bytes, fewer than \<open>size\<close>, and no write end is open: the reads
    collect them, the next one returns zero bytes: the truncation error,
    \<^verbatim>\<open>IOError("Message interrupted by EOF.")\<close>.
  \<^item> The same inside the loop: whenever \<open>remaining < size\<close>, that is after some bytes
    have been collected, a read at end of file gives the truncation error.
  \<^item> Fewer than \<open>size\<close> bytes and an open write end: the call waits.
  \<^item> At least \<open>size\<close> bytes: the call returns the first \<open>size\<close> bytes of the pipe,
    whatever the sizes of the partial reads.
  \<^item> Whenever the call returns, it returns exactly \<open>size\<close> bytes.
\<close>

theorem recv_in_buffer_outcomes:
  assumes "endpoint_of w h = Some (p, O_RDONLY)" and "p < length (pipes w)" and "0 < sz"
  shows
    "(pbuf (pipes w ! p) = [] \<and> nwriters (pipes w ! p) = 0 \<longrightarrow>
        fst (recv_in_buffer h sz w) = Raises PipeEOFError) \<and>
     (pbuf (pipes w ! p) \<noteq> [] \<and> length (pbuf (pipes w ! p)) < nat sz \<and>
      nwriters (pipes w ! p) = 0 \<longrightarrow>
        fst (recv_in_buffer h sz w) = Raises TruncatedMessageError) \<and>
     (\<forall>remaining readbuf.
        0 < remaining \<and> remaining < sz \<and> pbuf (pipes w ! p) = [] \<and>
        nwriters (pipes w ! p) = 0 \<longrightarrow>
          fst (recv_loop h sz remaining readbuf w) = Raises TruncatedMessageError) \<and>
     (length (pbuf (pipes w ! p)) < nat sz \<and> nwriters (pipes w ! p) \<noteq> 0 \<longrightarrow>
        fst (recv_in_buffer h sz w) = Suspends) \<and>
     (nat sz \<le> length (pbuf (pipes w ! p)) \<longrightarrow>
        fst (recv_in_buffer h sz w) = Returns (take (nat sz) (pbuf (pipes w ! p)))) \<and>
     (\<forall>bs w'. recv_in_buffer h sz w = (Returns bs, w') \<longrightarrow> int (length bs) = sz)"
proof -
  have short: "length (pbuf (pipes w ! p)) < nat sz \<Longrightarrow>
      fst (recv_in_buffer h sz w) =
        (if nwriters (pipes w ! p) = 0
         then Raises (if pbuf (pipes w ! p) = [] then PipeEOFError else TruncatedMessageError)
         else Suspends)"
    using recv_loop_short [OF assms(1,2), of sz sz "[]"] by (simp add: recv_in_buffer_def)
  have enough: "nat sz \<le> length (pbuf (pipes w ! p)) \<Longrightarrow>
      fst (recv_in_buffer h sz w) = Returns (take (nat sz) (pbuf (pipes w ! p)))"
    using recv_loop_enough [OF assms(1,2), of sz sz "[]"] by (auto simp: recv_in_buffer_def)
  have mid: "fst (recv_loop h sz remaining readbuf w) = Raises TruncatedMessageError"
    if "0 < remaining" "remaining < sz" "pbuf (pipes w ! p) = []" "nwriters (pipes w ! p) = 0"
    for remaining readbuf
    using recv_loop_short [OF assms(1,2), of remaining sz readbuf] that by simp
  have len: "int (length bs) = sz" if "recv_in_buffer h sz w = (Returns bs, w')" for bs w'
  proof (cases "nat sz \<le> length (pbuf (pipes w ! p))")
    case True
    from enough [OF True] that have "bs = take (nat sz) (pbuf (pipes w ! p))" by simp
    with True assms(3) show ?thesis by simp
  next
    case False
    then have "length (pbuf (pipes w ! p)) < nat sz" by simp
    from short [OF this] that show ?thesis by (simp split: if_splits)
  qed
  from assms(3) have e: "pbuf (pipes w ! p) = [] \<Longrightarrow> length (pbuf (pipes w ! p)) < nat sz" by simp
  show ?thesis using short enough mid len e by auto
qed

theorem recv_in_buffer_outcomes_witness:
  "fst (recv_in_buffer 0 4 writer_closed_empty) = Raises PipeEOFError \<and>
   fst (recv_in_buffer 0 8 writer_closed) = Raises TruncatedMessageError \<and>
   fst (recv_loop 0 8 3 [0, 0, 0, 1, 9] writer_closed_empty) = Raises TruncatedMessageError \<and>
   fst (recv_in_buffer 0 4 fresh_pair) = Suspends \<and>
   fst (recv_in_buffer 0 4 writer_closed) = Returns [0, 0, 0, 1]"
proof -
  have e: "endpoint_of writer_closed_empty 0 = Some (0, O_RDONLY)"
    "endpoint_of writer_closed 0 = Some (0, O_RDONLY)"
    "endpoint_of fresh_pair 0 = Some (0, O_RDONLY)"
    by (simp_all add: endpoint_of_def deref_def writer_closed_empty_eq writer_closed_eq fresh_pair_eq)
  have p: "0 < length (pipes writer_closed_empty)" "0 < length (pipes writer_closed)"
    "0 < length (pipes fresh_pair)"
    by (simp_all add: writer_closed_empty_eq writer_closed_eq fresh_pair_eq)
  have b: "pbuf (pipes writer_closed_empty ! 0) = []" "nwriters (pipes writer_closed_empty ! 0) = 0"
    "pbuf (pipes writer_closed ! 0) = [0, 0, 0, 1, 9]" "nwriters (pipes writer_closed ! 0) = 0"
    "pbuf (pipes fresh_pair ! 0) = []" "nwriters (pipes fresh_pair ! 0) = 1"
    by (simp_all add: writer_closed_empty_eq writer_closed_eq fresh_pair_eq)
  show ?thesis
    using recv_in_buffer_outcomes [OF e(1) p(1), of 4]
      recv_in_buffer_outcomes [OF e(1) p(1), of 8]
      recv_in_buffer_outcomes [OF e(2) p(2), of 8]
      recv_in_buffer_outcomes [OF e(2) p(2), of 4]
      recv_in_buffer_outcomes [OF e(3) p(3), of 4] b
    by simp
qed

section \<open>The frame\<close>




section \<open>Round trip and order\<close>







end
